theory Spec2Isabelle
  imports Complex_Main "HOL-Library.AList"
begin

section \<open>Conventions of the embedding\<close>

text \<open>
  The program is JavaScript. Its numbers are modelled as \<^typ>\<open>real\<close> (tile coordinates,
  which the code only ever produces with \<open>Math.floor\<close> or integer steps, as \<^typ>\<open>int\<close>).
  A plain object used as a dictionary (\<open>needs\<close>, \<open>itemDef.satisfies\<close>, \<open>needTypes\<close>) is an
  association list in the order \<open>Object.entries\<close> enumerates it; \<open>obj[key]\<close> is
  \<^const>\<open>map_of\<close> and an assignment through \<open>obj[key]\<close> is \<^const>\<open>AList.update\<close>, which keeps
  the position of an existing key. Calls to \<open>window.activityLogger\<close> and \<open>console.log\<close>
  change none of the state modelled here and are left out. \<open>Date.now()\<close> and the values
  drawn from \<open>Math.random()\<close> are arguments of the functions that read them.
\<close>

section \<open>Needs system (js/needs-system.js)\<close>

record need =
  need_value :: real
  need_max :: real
  need_priority :: real

type_synonym needs = "(string \<times> need) list"

text \<open>The entries of \<open>needTypes\<close>; \<open>name\<close>, \<open>color\<close> and \<open>icon\<close> are display data.\<close>

record need_config =
  config_max :: real
  decayRate :: real

definition needTypes :: "(string \<times> need_config) list" where
  "needTypes =
    [(''hunger'', \<lparr>config_max = 100, decayRate = 0.5\<rparr>),
     (''thirst'', \<lparr>config_max = 100, decayRate = 0.4\<rparr>),
     (''sleep'', \<lparr>config_max = 100, decayRate = 0.3\<rparr>),
     (''happiness'', \<lparr>config_max = 100, decayRate = 0.2\<rparr>),
     (''social'', \<lparr>config_max = 100, decayRate = 0.25\<rparr>)]"

definition initializeNeeds :: needs where
  "initializeNeeds =
    map (\<lambda>(key, config).
          (key, \<lparr>need_value = config_max config, need_max = config_max config,
                 need_priority = 0\<rparr>)) needTypes"

text \<open>
  \<open>updateNeeds\<close>: the loop visits every entry of \<open>needs\<close> and mutates the need in place
  when \<open>needTypes\<close> has a configuration for its key.
\<close>

definition updateNeeds :: "needs \<Rightarrow> real \<Rightarrow> needs" where
  "updateNeeds needs deltaTime =
    map (\<lambda>(key, need).
          (case map_of needTypes key of
             Some config \<Rightarrow>
               (let v = max 0 (need_value need - decayRate config * deltaTime);
                    percentage = v / need_max need
                in (key, need\<lparr>need_value := v, need_priority := 1 - percentage\<rparr>))
           | None \<Rightarrow> (key, need))) needs"

definition satisfyNeed :: "needs \<Rightarrow> string \<Rightarrow> real \<Rightarrow> needs" where
  "satisfyNeed needs needType amount =
    (case map_of needs needType of
       Some n \<Rightarrow>
         AList.update needType
           (n\<lparr>need_value := min (need_max n) (need_value n + amount)\<rparr>) needs
     | None \<Rightarrow> needs)"

text \<open>
  The loop of \<open>getMostUrgentNeed\<close>, with its two local variables as accumulators.
\<close>

fun urgent_loop :: "needs \<Rightarrow> real \<Rightarrow> string option \<Rightarrow> real \<times> string option" where
  "urgent_loop [] maxPriority urgentNeed = (maxPriority, urgentNeed)"
| "urgent_loop ((key, need) # rest) maxPriority urgentNeed =
    (if need_priority need > maxPriority
     then urgent_loop rest (need_priority need) (Some key)
     else urgent_loop rest maxPriority urgentNeed)"

definition getMostUrgentNeed :: "needs \<Rightarrow> string option" where
  "getMostUrgentNeed needs =
    (case urgent_loop needs 0 None of
       (maxPriority, urgentNeed) \<Rightarrow> if maxPriority > 0.3 then urgentNeed else None)"

section \<open>Time system (js/time-system.js)\<close>

record time_system =
  timeScale :: real
  dayLength :: real
  currentTime :: real
  dawn :: real
  morning :: real
  noon :: real
  afternoon :: real
  evening :: real
  night :: real
  midnight :: real
  isPaused :: bool

text \<open>The state the constructor builds (\<open>lastUpdate\<close> is never read).\<close>

definition TimeSystem_new :: time_system where
  "TimeSystem_new =
    \<lparr>timeScale = 60, dayLength = 24 * 60, currentTime = 6 * 60,
     dawn = 6 * 60, morning = 9 * 60, noon = 12 * 60, afternoon = 15 * 60,
     evening = 18 * 60, night = 21 * 60, midnight = 0, isPaused = False\<rparr>"

definition getTimeOfDay :: "time_system \<Rightarrow> string" where
  "getTimeOfDay ts =
    (let time = currentTime ts in
     if time \<ge> night ts \<or> time < dawn ts then ''night''
     else if time \<ge> evening ts then ''evening''
     else if time \<ge> afternoon ts then ''afternoon''
     else if time \<ge> noon ts then ''noon''
     else if time \<ge> morning ts then ''morning''
     else if time \<ge> dawn ts then ''dawn''
     else ''night'')"

definition isNighttime :: "time_system \<Rightarrow> bool" where
  "isNighttime ts =
    (let timeOfDay = getTimeOfDay ts in timeOfDay = ''night'' \<or> timeOfDay = ''midnight'')"

definition getNeedDecayModifier :: "time_system \<Rightarrow> string \<Rightarrow> real" where
  "getNeedDecayModifier ts needType =
    (if needType = ''sleep'' then (if isNighttime ts then 0.3 else 1.5)
     else if needType = ''hunger'' \<or> needType = ''thirst'' then 1.0
     else if needType = ''happiness'' \<or> needType = ''social''
       then (if isNighttime ts then 0.7 else 1.0)
     else 1.0)"

text \<open>
  The decay loop of \<open>NPC.update\<close> (js/npc.js, lines 109 to 120), run when a time system
  is present: each need decays by its base rate (\<open>0.5\<close> when \<open>needTypes\<close> has no rate
  for the key, or a rate of zero) scaled by the modifier of the time of day.
\<close>

definition NPC_update_decay :: "time_system \<Rightarrow> needs \<Rightarrow> real \<Rightarrow> needs" where
  "NPC_update_decay timeSystem needs timeDelta =
    map (\<lambda>(needType, need).
          (let modifier = getNeedDecayModifier timeSystem needType;
               baseDecay = (case map_of needTypes needType of
                              Some config \<Rightarrow> if decayRate config = 0 then 0.5 else decayRate config
                            | None \<Rightarrow> 0.5);
               adjustedDecay = baseDecay * modifier;
               v = max 0 (need_value need - adjustedDecay * timeDelta);
               percentage = v / need_max need
           in (needType, need\<lparr>need_value := v, need_priority := 1 - percentage\<rparr>))) needs"

section \<open>Entities and functional items\<close>

text \<open>
  The class \<open>Entity\<close> with the fields the functions below read or write (\<open>width\<close>,
  \<open>height\<close>, \<open>visible\<close>, \<open>layer\<close> and \<open>description\<close> belong to rendering). The classes that
  extend it are records that extend this one.
\<close>

record sprite =
  tileset :: string
  sprite_tileX :: int
  sprite_tileY :: int

record entity =
  entity_id :: string
  entity_type :: string
  tileX :: int
  tileY :: int
  pixelX :: real
  pixelY :: real
  entity_sprite :: "sprite option"
  interactable :: bool
  entity_name :: string
  active :: bool
  markedForRemoval :: bool

definition setPosition :: "int \<Rightarrow> int \<Rightarrow> 'a entity_scheme \<Rightarrow> 'a entity_scheme" where
  "setPosition x y e = e\<lparr>tileX := x, tileY := y, pixelX := of_int x * 32, pixelY := of_int y * 32\<rparr>"

definition isAtPosition :: "'a entity_scheme \<Rightarrow> int \<Rightarrow> int \<Rightarrow> bool" where
  "isAtPosition e x y = (tileX e = x \<and> tileY e = y)"

record item_def =
  def_name :: string
  category :: string
  satisfies :: "(string \<times> real) list"
  def_useTime :: real

text \<open>
  \<open>FunctionalItem\<close> (the fields of \<open>Item\<close> between it and \<open>Entity\<close> are the bobbing
  animation and the collectible data, which no function below reads).
\<close>

record functional_item = entity +
  itemDef :: item_def
  inUse :: bool
  usedBy :: "string option"
  useTime :: real
  maxUseTime :: real

definition FunctionalItem_new :: "string \<Rightarrow> int \<Rightarrow> int \<Rightarrow> string \<Rightarrow> item_def \<Rightarrow> functional_item" where
  "FunctionalItem_new new_id x y nm def =
    \<lparr>entity_id = new_id, entity_type = ''functional'', tileX = x, tileY = y,
     pixelX = of_int x * 32, pixelY = of_int y * 32, entity_sprite = None,
     interactable = True, entity_name = nm, active = True, markedForRemoval = False,
     itemDef = def, inUse = False, usedBy = None, useTime = 0,
     maxUseTime = (if def_useTime def = 0 then 5 else def_useTime def)\<rparr>"

definition canSatisfy :: "functional_item \<Rightarrow> string \<Rightarrow> bool" where
  "canSatisfy item needType =
    (case map_of (satisfies (itemDef item)) needType of
       Some amount \<Rightarrow> amount > 0
     | None \<Rightarrow> False)"

definition getSatisfactionAmount :: "functional_item \<Rightarrow> string \<Rightarrow> real" where
  "getSatisfactionAmount item needType =
    (case map_of (satisfies (itemDef item)) needType of
       Some amount \<Rightarrow> amount
     | None \<Rightarrow> 0)"

definition startUse :: "functional_item \<Rightarrow> string \<Rightarrow> bool \<times> functional_item" where
  "startUse item entityId =
    (if inUse item then (False, item)
     else (True, item\<lparr>inUse := True, usedBy := Some entityId, useTime := 0\<rparr>))"

definition completeUse :: "functional_item \<Rightarrow> functional_item" where
  "completeUse item = item\<lparr>inUse := False, usedBy := None, useTime := 0\<rparr>"

definition updateUse :: "functional_item \<Rightarrow> real \<Rightarrow> bool \<times> functional_item" where
  "updateUse item deltaTime =
    (if \<not> inUse item then (False, item)
     else (let item' = item\<lparr>useTime := useTime item + deltaTime\<rparr> in
           if useTime item' \<ge> maxUseTime item' then (True, completeUse item')
           else (False, item')))"

definition stopUse :: "functional_item \<Rightarrow> functional_item" where
  "stopUse item = item\<lparr>inUse := False, usedBy := None, useTime := 0\<rparr>"

definition isAvailable :: "functional_item \<Rightarrow> bool" where
  "isAvailable item = (\<not> inUse item)"

text \<open>The entry of \<open>ItemDefinitions.getDefinitions()\<close> for coffee.\<close>

definition coffee :: item_def where
  "coffee = \<lparr>def_name = ''Coffee'', category = ''drink'',
             satisfies = [(''thirst'', 30), (''sleep'', - 10), (''happiness'', 15)],
             def_useTime = 2\<rparr>"

section \<open>NPC (js/npc.js)\<close>

record relationship =
  rel_value :: real
  interactions :: nat
  lastInteraction :: real

text \<open>
  A goal \<open>{type, needType, target}\<close>; \<open>target\<close> and the field \<open>targetItem\<close> of an NPC are
  references to a \<open>FunctionalItem\<close> object, modelled as addresses into a heap of items.
\<close>

record goal =
  goal_type :: string
  goal_needType :: string
  goal_target :: nat

record npc = entity +
  npc_needs :: needs
  aiType :: string
  patrolPath :: "(int \<times> int) list"
  dialogue :: "string list"
  currentGoal :: "goal option"
  targetItem :: "nat option"
  usingItem :: bool
  useStartTime :: real
  moveSpeed :: real
  isMoving :: bool
  targetTileX :: int
  targetTileY :: int
  targetPixelX :: real
  targetPixelY :: real
  direction :: nat
  animationFrame :: nat
  lastAnimationTime :: real
  animationSpeed :: real
  lastAITime :: real
  aiInterval :: real
  lastNeedUpdate :: real
  needUpdateInterval :: real
  relationships :: "string \<rightharpoonup> relationship"

text \<open>
  The constructor. The identifier, which \<open>Entity\<close> draws from the clock and
  \<open>Math.random()\<close>, is an argument; the personality and the interaction history, which
  only \<open>performInteraction\<close> uses, are left out.
\<close>

definition NPC_new :: "string \<Rightarrow> int \<Rightarrow> int \<Rightarrow> string \<Rightarrow> npc" where
  "NPC_new new_id x y nm =
    \<lparr>entity_id = new_id, entity_type = ''npc'', tileX = x, tileY = y,
     pixelX = of_int x * 32, pixelY = of_int y * 32,
     entity_sprite = Some \<lparr>tileset = ''character'', sprite_tileX = 0, sprite_tileY = 0\<rparr>,
     interactable = True, entity_name = nm, active = True, markedForRemoval = False,
     npc_needs = initializeNeeds, aiType = ''autonomous'', patrolPath = [],
     dialogue = [''Hello!'', ''How can I help you?''],
     currentGoal = None, targetItem = None, usingItem = False, useStartTime = 0,
     moveSpeed = 0.8, isMoving = False, targetTileX = x, targetTileY = y,
     targetPixelX = of_int x * 32, targetPixelY = of_int y * 32,
     direction = 0, animationFrame = 0, lastAnimationTime = 0, animationSpeed = 150,
     lastAITime = 0, aiInterval = 1000, lastNeedUpdate = 0, needUpdateInterval = 100,
     relationships = Map.empty\<rparr>"

text \<open>\<open>updateRelationship(other, change)\<close> reads \<open>other.id\<close> only.\<close>

definition updateRelationship :: "npc \<Rightarrow> string \<Rightarrow> real \<Rightarrow> real \<Rightarrow> npc" where
  "updateRelationship this other_id change now =
    (let rel = (case relationships this other_id of
                  None \<Rightarrow> \<lparr>rel_value = 0, interactions = 0, lastInteraction = now\<rparr>
                | Some r \<Rightarrow> r)
     in this\<lparr>relationships := (relationships this)(other_id \<mapsto>
               rel\<lparr>rel_value := max (- 100) (min 100 (rel_value rel + change)),
                   interactions := interactions rel + 1,
                   lastInteraction := now\<rparr>)\<rparr>)"

definition getRelationship :: "npc \<Rightarrow> string \<Rightarrow> real" where
  "getRelationship this other_id =
    (case relationships this other_id of None \<Rightarrow> 0 | Some rel \<Rightarrow> rel_value rel)"

text \<open>
  \<open>completeItemUse\<close>: the loop over \<open>Object.entries(this.targetItem.itemDef.satisfies)\<close> is
  a fold over the table, skipping the kind of the goal.
\<close>

definition satisfy_others :: "(string \<times> real) list \<Rightarrow> string \<Rightarrow> needs \<Rightarrow> needs" where
  "satisfy_others table goalType needs =
    fold (\<lambda>(needType, needAmount) ns.
            if needType \<noteq> goalType then satisfyNeed ns needType needAmount else ns)
         table needs"

definition completeItemUse :: "(nat \<Rightarrow> functional_item) \<Rightarrow> npc \<Rightarrow> npc" where
  "completeItemUse items this =
    (let this' =
       (case (targetItem this, currentGoal this) of
          (Some a, Some g) \<Rightarrow>
            (let amount = getSatisfactionAmount (items a) (goal_needType g);
                 ns = satisfyNeed (npc_needs this) (goal_needType g) amount
             in this\<lparr>npc_needs :=
                  satisfy_others (satisfies (itemDef (items a))) (goal_needType g) ns\<rparr>)
        | _ \<Rightarrow> this)
     in this'\<lparr>usingItem := False, targetItem := None, currentGoal := None, useStartTime := 0\<rparr>)"

text \<open>
  The saved form of an entity. A field that the loader may find missing is an option;
  \<open>a || b\<close> on a string takes \<open>b\<close> when \<open>a\<close> is missing or empty.
\<close>

record entity_data =
  data_id :: "string option"
  data_type :: "string option"
  data_tileX :: "int option"
  data_tileY :: "int option"
  data_name :: "string option"
  data_sprite :: "sprite option"
  data_interactable :: "bool option"

record npc_data = entity_data +
  data_aiType :: string
  data_patrolPath :: "(int \<times> int) list"
  data_dialogue :: "string list"
  data_needs :: "needs option"

definition string_or :: "string option \<Rightarrow> string \<Rightarrow> string" where
  "string_or a b = (case a of None \<Rightarrow> b | Some s \<Rightarrow> if s = [] then b else s)"

definition int_or :: "int option \<Rightarrow> int \<Rightarrow> int" where
  "int_or a b = (case a of None \<Rightarrow> b | Some i \<Rightarrow> if i = 0 then b else i)"

definition NPC_serialize :: "npc \<Rightarrow> npc_data" where
  "NPC_serialize this =
    \<lparr>data_id = Some (entity_id this), data_type = Some (entity_type this),
     data_tileX = Some (tileX this), data_tileY = Some (tileY this),
     data_name = Some (entity_name this), data_sprite = entity_sprite this,
     data_interactable = Some (interactable this),
     data_aiType = aiType this, data_patrolPath = patrolPath this,
     data_dialogue = dialogue this, data_needs = Some (npc_needs this)\<rparr>"

definition Entity_deserialize :: "'a entity_scheme \<Rightarrow> 'b entity_data_scheme \<Rightarrow> 'a entity_scheme" where
  "Entity_deserialize this data =
    (setPosition (int_or (data_tileX data) 0) (int_or (data_tileY data) 0)
       (this\<lparr>entity_id := string_or (data_id data) (entity_id this),
             entity_type := string_or (data_type data) (entity_type this)\<rparr>))
    \<lparr>entity_name := string_or (data_name data) (entity_name this),
     entity_sprite := (case data_sprite data of None \<Rightarrow> entity_sprite this | Some sp \<Rightarrow> Some sp),
     interactable := (case data_interactable data of None \<Rightarrow> interactable this | Some b \<Rightarrow> b)\<rparr>"

definition NPC_deserialize :: "npc \<Rightarrow> npc_data \<Rightarrow> npc" where
  "NPC_deserialize this data =
    (let this' = Entity_deserialize this data in
     case data_needs data of
       Some ns \<Rightarrow> this'\<lparr>npc_needs := ns\<rparr>
     | None \<Rightarrow> this')"

text \<open>
  The loader of the map (\<open>MapRenderer\<close>) builds the fresh agent with
  \<open>new NPC(data.tileX || 0, data.tileY || 0, data.name || 'NPC')\<close> and then calls
  \<open>deserialize\<close> on it.
\<close>

definition load_NPC :: "string \<Rightarrow> npc_data \<Rightarrow> npc" where
  "load_NPC new_id data =
    NPC_deserialize
      (NPC_new new_id (int_or (data_tileX data) 0) (int_or (data_tileY data) 0)
         (string_or (data_name data) ''NPC''))
      data"

section \<open>The world: objects and the entity manager (js/entity-manager.js)\<close>

text \<open>
  Entities are objects that the manager, the NPCs and the items share by reference. The
  heap gives every address an object of its class; a reference names the class and the
  address. The three maps of \<open>EntityManager\<close> are association lists in insertion order,
  and a \<open>Set\<close> of entities is a list without repetition. A position key \<open>`${x},${y}`\<close> is
  the pair of the two integers, which the string determines.
\<close>

datatype ref = NPCRef nat | ItemRef nat | EntityRef nat

record world =
  heap_npcs :: "nat \<Rightarrow> npc"
  heap_items :: "nat \<Rightarrow> functional_item"
  heap_entities :: "nat \<Rightarrow> entity"
  entities :: "(string \<times> ref) list"
  entitiesByType :: "(string \<times> ref list) list"
  entitiesByPosition :: "((int \<times> int) \<times> ref list) list"

definition deref :: "world \<Rightarrow> ref \<Rightarrow> entity" where
  "deref w r =
    (case r of
       NPCRef a \<Rightarrow> entity.truncate (heap_npcs w a)
     | ItemRef a \<Rightarrow> entity.truncate (heap_items w a)
     | EntityRef a \<Rightarrow> heap_entities w a)"

definition Set_add :: "'a \<Rightarrow> 'a list \<Rightarrow> 'a list" where
  "Set_add x xs = (if x \<in> set xs then xs else xs @ [x])"

definition Set_delete :: "'a \<Rightarrow> 'a list \<Rightarrow> 'a list" where
  "Set_delete x xs = removeAll x xs"

definition indexEntityPosition :: "world \<Rightarrow> ref \<Rightarrow> world" where
  "indexEntityPosition w entity =
    (let key = (tileX (deref w entity), tileY (deref w entity));
         bucket = (case map_of (entitiesByPosition w) key of None \<Rightarrow> [] | Some s \<Rightarrow> s)
     in w\<lparr>entitiesByPosition := AList.update key (Set_add entity bucket) (entitiesByPosition w)\<rparr>)"

definition unindexEntityPosition :: "world \<Rightarrow> ref \<Rightarrow> world" where
  "unindexEntityPosition w entity =
    (let key = (tileX (deref w entity), tileY (deref w entity)) in
     case map_of (entitiesByPosition w) key of
       None \<Rightarrow> w
     | Some s \<Rightarrow>
         (let s' = Set_delete entity s in
          if s' = [] then w\<lparr>entitiesByPosition := AList.delete key (entitiesByPosition w)\<rparr>
          else w\<lparr>entitiesByPosition := AList.update key s' (entitiesByPosition w)\<rparr>))"

definition updateEntityPosition :: "world \<Rightarrow> ref \<Rightarrow> world" where
  "updateEntityPosition w entity =
    (let oldKey = (\<lfloor>pixelX (deref w entity) / 32\<rfloor>, \<lfloor>pixelY (deref w entity) / 32\<rfloor>);
         newKey = (tileX (deref w entity), tileY (deref w entity))
     in if oldKey \<noteq> newKey then indexEntityPosition (unindexEntityPosition w entity) entity
        else w)"

definition EntityManager_new :: "(nat \<Rightarrow> npc) \<Rightarrow> (nat \<Rightarrow> functional_item) \<Rightarrow> (nat \<Rightarrow> entity) \<Rightarrow> world" where
  "EntityManager_new ns its es =
    \<lparr>heap_npcs = ns, heap_items = its, heap_entities = es,
     entities = [], entitiesByType = [], entitiesByPosition = []\<rparr>"

definition EntityManager_add :: "world \<Rightarrow> ref \<Rightarrow> world" where
  "EntityManager_add w entity =
    (let e = deref w entity;
         typeSet = (case map_of (entitiesByType w) (entity_type e) of None \<Rightarrow> [] | Some s \<Rightarrow> s)
     in indexEntityPosition
          (w\<lparr>entities := AList.update (entity_id e) entity (entities w),
             entitiesByType :=
               AList.update (entity_type e) (Set_add entity typeSet) (entitiesByType w)\<rparr>)
          entity)"

definition EntityManager_remove :: "world \<Rightarrow> string \<Rightarrow> world" where
  "EntityManager_remove w ident =
    (case map_of (entities w) ident of
       None \<Rightarrow> w
     | Some entity \<Rightarrow>
         (let w1 = w\<lparr>entities := AList.delete ident (entities w)\<rparr>;
              tp = entity_type (deref w1 entity);
              w2 = (case map_of (entitiesByType w1) tp of
                      None \<Rightarrow> w1
                    | Some typeSet \<Rightarrow>
                        w1\<lparr>entitiesByType :=
                             AList.update tp (Set_delete entity typeSet) (entitiesByType w1)\<rparr>)
          in unindexEntityPosition w2 entity))"

definition getByType :: "world \<Rightarrow> string \<Rightarrow> ref list" where
  "getByType w tp = (case map_of (entitiesByType w) tp of None \<Rightarrow> [] | Some s \<Rightarrow> s)"

definition getAtPosition :: "world \<Rightarrow> int \<Rightarrow> int \<Rightarrow> ref list" where
  "getAtPosition w x y = (case map_of (entitiesByPosition w) (x, y) of None \<Rightarrow> [] | Some s \<Rightarrow> s)"

section \<open>One update of an NPC (js/npc.js, \<open>NPC.update\<close>)\<close>

text \<open>
  What an update reads from outside the objects: the clock (\<open>Date.now()\<close>, one value for
  the whole tick), \<open>window.timeSystem\<close>, and the decisions of the AI. The decision methods
  (\<open>makeAutonomousDecision\<close>, \<open>patrol\<close>, \<open>wander\<close>) draw random numbers and search the index;
  they are arguments here, each a function of the world and the address of the NPC.
\<close>

record env =
  date_now :: real
  window_timeSystem :: "time_system option"
  makeAutonomousDecision :: "world \<Rightarrow> nat \<Rightarrow> world"
  patrol :: "world \<Rightarrow> nat \<Rightarrow> world"
  wander :: "world \<Rightarrow> nat \<Rightarrow> world"

definition moveTo :: "npc \<Rightarrow> int \<Rightarrow> int \<Rightarrow> real \<Rightarrow> npc" where
  "moveTo this x y time =
    (if isMoving this then this
     else this\<lparr>direction :=
                 (if y > tileY this then 0 else if x < tileX this then 1
                  else if x > tileX this then 2 else if y < tileY this then 3
                  else direction this),
               targetTileX := x, targetTileY := y,
               targetPixelX := of_int x * 32, targetPixelY := of_int y * 32,
               isMoving := True, animationFrame := 0, lastAnimationTime := time\<rparr>)"

text \<open>Lines 100 to 128: decay of the needs, at most once per \<open>needUpdateInterval\<close>.\<close>

definition update_needs :: "env \<Rightarrow> real \<Rightarrow> npc \<Rightarrow> npc" where
  "update_needs ev deltaTime this =
    (if date_now ev - lastNeedUpdate this > needUpdateInterval this then
       (case window_timeSystem ev of
          Some ts \<Rightarrow>
            this\<lparr>npc_needs :=
                   NPC_update_decay ts (npc_needs this) ((date_now ev - lastNeedUpdate this) / 1000),
                 lastNeedUpdate := date_now ev\<rparr>
        | None \<Rightarrow>
            this\<lparr>npc_needs := updateNeeds (npc_needs this) (deltaTime / 1000),
                 lastNeedUpdate := date_now ev\<rparr>)
     else this)"

definition startUsingItem :: "env \<Rightarrow> world \<Rightarrow> nat \<Rightarrow> nat \<Rightarrow> world" where
  "startUsingItem ev w a i =
    (case startUse (heap_items w i) (entity_id (heap_npcs w a)) of
       (True, item') \<Rightarrow>
         w\<lparr>heap_items := (heap_items w)(i := item'),
           heap_npcs := (heap_npcs w)
             (a := (heap_npcs w a)\<lparr>usingItem := True, useStartTime := date_now ev, isMoving := False\<rparr>)\<rparr>
     | (False, _) \<Rightarrow> w)"

text \<open>Lines 130 to 137: the item in use advances and, when it completes, is consumed.\<close>

definition update_itemUse :: "env \<Rightarrow> world \<Rightarrow> nat \<Rightarrow> world" where
  "update_itemUse ev w a =
    (let this = heap_npcs w a in
     case targetItem this of
       Some i \<Rightarrow>
         if usingItem this then
           (let useDelta = (date_now ev - useStartTime this) / 1000 in
            case updateUse (heap_items w i) useDelta of
              (True, item') \<Rightarrow>
                w\<lparr>heap_items := (heap_items w)(i := item'),
                  heap_npcs := (heap_npcs w)
                    (a := completeItemUse ((heap_items w)(i := item')) this)\<rparr>
            | (False, item') \<Rightarrow> w\<lparr>heap_items := (heap_items w)(i := item')\<rparr>)
         else w
     | None \<Rightarrow> w)"

text \<open>
  Lines 140 to 163: a step towards the target pixel, or the arrival, which snaps the
  pixel position to the target, recomputes the tile from it and starts the use of the
  target item when the NPC stands on its tile.
\<close>

definition update_movement :: "env \<Rightarrow> world \<Rightarrow> nat \<Rightarrow> world" where
  "update_movement ev w a =
    (let this = heap_npcs w a in
     if isMoving this \<and> \<not> usingItem this then
       (let dx = targetPixelX this - pixelX this;
            dy = targetPixelY this - pixelY this;
            distance = sqrt (dx * dx + dy * dy)
        in if distance < moveSpeed this then
             (let this' = this\<lparr>pixelX := targetPixelX this, pixelY := targetPixelY this,
                               tileX := \<lfloor>targetPixelX this / 32\<rfloor>,
                               tileY := \<lfloor>targetPixelY this / 32\<rfloor>,
                               isMoving := False, animationFrame := 0\<rparr>;
                  w' = w\<lparr>heap_npcs := (heap_npcs w)(a := this')\<rparr>
              in case targetItem this' of
                   Some i \<Rightarrow>
                     if isAtPosition this' (tileX (heap_items w' i)) (tileY (heap_items w' i))
                     then startUsingItem ev w' a i else w'
                 | None \<Rightarrow> w')
           else w\<lparr>heap_npcs := (heap_npcs w)
                  (a := this\<lparr>pixelX := pixelX this + (dx / distance) * moveSpeed this,
                            pixelY := pixelY this + (dy / distance) * moveSpeed this\<rparr>)\<rparr>)
     else w)"

text \<open>Lines 165 to 173: the animation frame.\<close>

definition update_animation :: "env \<Rightarrow> npc \<Rightarrow> npc" where
  "update_animation ev this =
    (if isMoving this \<and> \<not> usingItem this then
       (if date_now ev - lastAnimationTime this > animationSpeed this
        then this\<lparr>animationFrame := (animationFrame this + 1) mod 4, lastAnimationTime := date_now ev\<rparr>
        else this)
     else if \<not> usingItem this then this\<lparr>animationFrame := 0\<rparr>
     else this)"

definition makeAIDecision :: "env \<Rightarrow> world \<Rightarrow> nat \<Rightarrow> world" where
  "makeAIDecision ev w a =
    (if aiType (heap_npcs w a) = ''patrol'' then patrol ev w a
     else if aiType (heap_npcs w a) = ''wander'' then wander ev w a
     else w)"

text \<open>Lines 175 to 183: a decision, at most once per \<open>aiInterval\<close>, when idle.\<close>

definition update_ai :: "env \<Rightarrow> world \<Rightarrow> nat \<Rightarrow> world" where
  "update_ai ev w a =
    (let this = heap_npcs w a in
     if date_now ev - lastAITime this > aiInterval this \<and> \<not> isMoving this \<and> \<not> usingItem this then
       (let w' = (if aiType this = ''autonomous'' then makeAutonomousDecision ev w a
                  else makeAIDecision ev w a)
        in w'\<lparr>heap_npcs := (heap_npcs w')(a := (heap_npcs w' a)\<lparr>lastAITime := date_now ev\<rparr>)\<rparr>)
     else w)"

text \<open>
  \<open>NPC.update\<close>. The needs of an NPC are set by its constructor, so the lazy
  initialisation at the head of the method has nothing to do.
\<close>

definition NPC_update :: "env \<Rightarrow> real \<Rightarrow> world \<Rightarrow> nat \<Rightarrow> world" where
  "NPC_update ev deltaTime w a =
    (if \<not> active (heap_npcs w a) then w
     else
       (let w1 = w\<lparr>heap_npcs := (heap_npcs w)(a := update_needs ev deltaTime (heap_npcs w a))\<rparr>;
            w2 = update_itemUse ev w1 a;
            w3 = update_movement ev w2 a;
            w4 = w3\<lparr>heap_npcs := (heap_npcs w3)(a := update_animation ev (heap_npcs w3 a))\<rparr>
        in update_ai ev w4 a))"

text \<open>
  \<open>entity.update(deltaTime)\<close> by class: \<open>Entity.update\<close> is empty, and \<open>Item.update\<close>, which
  \<open>FunctionalItem\<close> inherits, only recomputes the offset of the bobbing animation.
\<close>

definition entity_update :: "env \<Rightarrow> real \<Rightarrow> world \<Rightarrow> ref \<Rightarrow> world" where
  "entity_update ev deltaTime w r =
    (case r of
       NPCRef a \<Rightarrow> NPC_update ev deltaTime w a
     | ItemRef a \<Rightarrow> w
     | EntityRef a \<Rightarrow> w)"

text \<open>The loop of \<open>EntityManager.update\<close> over \<open>this.entities.values()\<close>.\<close>

fun update_loop :: "env \<Rightarrow> real \<Rightarrow> ref list \<Rightarrow> world \<Rightarrow> string list \<Rightarrow> world \<times> string list" where
  "update_loop ev deltaTime [] w toRemove = (w, toRemove)"
| "update_loop ev deltaTime (entity # rest) w toRemove =
    (if markedForRemoval (deref w entity)
     then update_loop ev deltaTime rest w (toRemove @ [entity_id (deref w entity)])
     else if active (deref w entity)
     then update_loop ev deltaTime rest
            (updateEntityPosition (entity_update ev deltaTime w entity) entity) toRemove
     else update_loop ev deltaTime rest w toRemove)"

definition EntityManager_update :: "env \<Rightarrow> real \<Rightarrow> world \<Rightarrow> world" where
  "EntityManager_update ev deltaTime w =
    (case update_loop ev deltaTime (map snd (entities w)) w [] of
       (w', toRemove) \<Rightarrow> fold (\<lambda>ident w. EntityManager_remove w ident) toRemove w')"

section \<open>A tick in which an NPC arrives\<close>

text \<open>
  The state used below to run \<open>EntityManager.update\<close>: an NPC built at tile \<open>(0, 0)\<close> and
  added to the manager, which then started to move to tile \<open>(1, 0)\<close> and now is half a
  pixel short of it (any distance below \<open>moveSpeed\<close> behaves the same). The clock is 650 ms
  past its last decision and 50 ms past its last decay, so neither runs in this tick.
\<close>

definition arriving_npc :: npc where
  "arriving_npc =
    (moveTo (NPC_new ''npc_1'' 0 0 ''Ann'') 1 0 1000)
      \<lparr>pixelX := 31.5, lastAITime := 1000, lastNeedUpdate := 1600\<rparr>"

definition arriving_world :: world where
  "arriving_world =
    (let w0 = EntityManager_add
                (EntityManager_new (\<lambda>a. NPC_new ''npc_1'' 0 0 ''Ann'')
                   (\<lambda>a. FunctionalItem_new ''item_1'' 5 5 ''Coffee'' coffee)
                   (\<lambda>a. entity.truncate (NPC_new ''npc_1'' 0 0 ''Ann'')))
                (NPCRef 0)
     in w0\<lparr>heap_npcs := (heap_npcs w0)(0 := arriving_npc)\<rparr>)"

definition arriving_env :: "(world \<Rightarrow> nat \<Rightarrow> world) \<Rightarrow> env" where
  "arriving_env decide =
    \<lparr>date_now = 1650, window_timeSystem = Some TimeSystem_new,
     makeAutonomousDecision = decide, patrol = decide, wander = decide\<rparr>"

text \<open>The NPC after the arrival.\<close>

definition arrived_npc :: npc where
  "arrived_npc = arriving_npc\<lparr>pixelX := 32, pixelY := 0, tileX := 1, tileY := 0,
                               isMoving := False, animationFrame := 0\<rparr>"

section \<open>Properties of the needs system\<close>

lemma map_of_update_same:
  "map_of (AList.update k v al) k = Some v"
  by (simp add: update_conv')

lemma satisfyNeed_value:
  assumes "map_of needs needType = Some n"
  shows "map_of (satisfyNeed needs needType amount) needType =
           Some (n\<lparr>need_value := min (need_max n) (need_value n + amount)\<rparr>)"
  using assms by (simp add: satisfyNeed_def map_of_update_same)

lemma satisfyNeed_upper:
  assumes "map_of needs needType = Some n"
    and "map_of (satisfyNeed needs needType amount) needType = Some n'"
  shows "need_value n' \<le> need_max n' \<and> need_max n' = need_max n"
  using assms satisfyNeed_value [OF assms(1), of amount] by auto


text \<open>
  Claim C1 (the result of \<open>satisfyNeed\<close> stays within \<open>[0, max]\<close>). The upper bound holds
  (\<open>satisfyNeed_upper\<close>), but \<open>satisfyNeed\<close> has no lower clamp: the decay paths take
  \<open>Math.max(0, ...)\<close> and this one does not. With sleep at 5, the amount \<open>-10\<close> that the
  item table lists for coffee leaves the value at \<open>-5\<close>.
\<close>

theorem satisfyNeed_below_zero:
  "map_of (satisfyNeed
      [(''hunger'', \<lparr>need_value = 60, need_max = 100, need_priority = 0.4\<rparr>),
       (''thirst'', \<lparr>need_value = 20, need_max = 100, need_priority = 0.8\<rparr>),
       (''sleep'', \<lparr>need_value = 5, need_max = 100, need_priority = 0.95\<rparr>),
       (''happiness'', \<lparr>need_value = 70, need_max = 100, need_priority = 0.3\<rparr>),
       (''social'', \<lparr>need_value = 90, need_max = 100, need_priority = 0.1\<rparr>)]
      ''sleep'' (- 10)) ''sleep''
   = Some \<lparr>need_value = - 5, need_max = 100, need_priority = 0.95\<rparr>"
  by (simp add: satisfyNeed_def)

text \<open>
  The program makes that call itself: an agent with sleep at 5 that completes the use of a
  coffee, taken for thirst, is left with sleep at \<open>-5\<close>.
\<close>

lemma completeItemUse_coffee_below_zero:
  "map_of (npc_needs (completeItemUse (\<lambda>a. FunctionalItem_new ''item_1'' 0 0 ''Coffee'' coffee)
     ((NPC_new ''npc_1'' 0 0 ''Ann'')
      \<lparr>npc_needs := [(''hunger'', \<lparr>need_value = 60, need_max = 100, need_priority = 0.4\<rparr>),
                     (''thirst'', \<lparr>need_value = 20, need_max = 100, need_priority = 0.8\<rparr>),
                     (''sleep'', \<lparr>need_value = 5, need_max = 100, need_priority = 0.95\<rparr>),
                     (''happiness'', \<lparr>need_value = 70, need_max = 100, need_priority = 0.3\<rparr>),
                     (''social'', \<lparr>need_value = 90, need_max = 100, need_priority = 0.1\<rparr>)],
        currentGoal := Some \<lparr>goal_type = ''satisfy_need'', goal_needType = ''thirst'', goal_target = 0\<rparr>,
        targetItem := Some 0, usingItem := True\<rparr>))) ''sleep''
     = Some \<lparr>need_value = - 5, need_max = 100, need_priority = 0.95\<rparr>"
  by (simp add: completeItemUse_def satisfy_others_def satisfyNeed_def getSatisfactionAmount_def
      FunctionalItem_new_def coffee_def NPC_new_def)

text \<open>
  Claim C10: \<open>satisfyNeed\<close> with a kind that the needs set does not hold returns the needs
  set as it was; the function has no path that signals an error. (The needs set is its own
  entries: the properties a JavaScript object inherits from \<open>Object.prototype\<close> are not
  entries of \<open>Object.entries\<close> and are not modelled.)
\<close>

theorem satisfyNeed_unknown_kind:
  "map_of needs needType = None \<Longrightarrow> satisfyNeed needs needType amount = needs"
  by (simp add: satisfyNeed_def)

theorem satisfyNeed_unknown_kind_witness:
  "map_of initializeNeeds ''hungry'' = None \<and>
   satisfyNeed initializeNeeds ''hungry'' 25 = initializeNeeds"
proof -
  have h: "map_of initializeNeeds ''hungry'' = None"
    by (simp add: initializeNeeds_def needTypes_def)
  from satisfyNeed_unknown_kind [OF h, of 25] h show ?thesis by simp
qed

subsection \<open>The most urgent need\<close>

text \<open>
  The loop either keeps its accumulators, and then no priority exceeds the starting
  maximum, or it ends on the first entry that holds the greatest priority.
\<close>

lemma urgent_loop_cases:
  "(urgent_loop xs m u = (m, u) \<and> (\<forall>x\<in>set xs. need_priority (snd x) \<le> m)) \<or>
   (\<exists>ys k n zs. xs = ys @ (k, n) # zs \<and> urgent_loop xs m u = (need_priority n, Some k) \<and>
      m < need_priority n \<and>
      (\<forall>y\<in>set ys. need_priority (snd y) < need_priority n) \<and>
      (\<forall>z\<in>set zs. need_priority (snd z) \<le> need_priority n))"
  (is "?keep xs m u \<or> ?found xs m u")
proof (induction xs arbitrary: m u)
  case Nil
  then show ?case by simp
next
  case (Cons x xs)
  obtain k n where x: "x = (k, n)" by (cases x)
  show ?case
  proof (cases "need_priority n > m")
    case True
    then have step: "urgent_loop (x # xs) m u = urgent_loop xs (need_priority n) (Some k)"
      by (simp add: x)
    from Cons.IH [of "need_priority n" "Some k"] show ?thesis
    proof
      assume a: "?keep xs (need_priority n) (Some k)"
      have "?found (x # xs) m u"
        apply (rule exI [of _ "[]"], rule exI [of _ k], rule exI [of _ n], rule exI [of _ xs])
        using a True step by (simp add: x)
      then show ?thesis by (rule disjI2)
    next
      assume "?found xs (need_priority n) (Some k)"
      then obtain ys k' n' zs where b: "xs = ys @ (k', n') # zs"
        "urgent_loop xs (need_priority n) (Some k) = (need_priority n', Some k')"
        "need_priority n < need_priority n'"
        "\<forall>y\<in>set ys. need_priority (snd y) < need_priority n'"
        "\<forall>z\<in>set zs. need_priority (snd z) \<le> need_priority n'" by blast
      have "?found (x # xs) m u"
        apply (rule exI [of _ "x # ys"], rule exI [of _ k'], rule exI [of _ n'], rule exI [of _ zs])
        using b True step by (simp add: x)
      then show ?thesis by (rule disjI2)
    qed
  next
    case False
    then have step: "urgent_loop (x # xs) m u = urgent_loop xs m u"
      by (simp add: x)
    from Cons.IH [of m u] show ?thesis
    proof
      assume a: "?keep xs m u"
      have "?keep (x # xs) m u" using a False step by (simp add: x)
      then show ?thesis by (rule disjI1)
    next
      assume "?found xs m u"
      then obtain ys k' n' zs where b: "xs = ys @ (k', n') # zs"
        "urgent_loop xs m u = (need_priority n', Some k')"
        "m < need_priority n'"
        "\<forall>y\<in>set ys. need_priority (snd y) < need_priority n'"
        "\<forall>z\<in>set zs. need_priority (snd z) \<le> need_priority n'" by blast
      have "?found (x # xs) m u"
        apply (rule exI [of _ "x # ys"], rule exI [of _ k'], rule exI [of _ n'], rule exI [of _ zs])
        using b False step by (simp add: x)
      then show ?thesis by (rule disjI2)
    qed
  qed
qed

text \<open>
  Claim C3: \<open>getMostUrgentNeed\<close> returns \<open>null\<close> exactly when every priority is at most
  \<open>0.3\<close>; a kind it returns holds the greatest priority, and every entry enumerated before
  it has a strictly smaller one, so among equal priorities the first in enumeration order
  is returned.
\<close>

theorem getMostUrgentNeed_spec:
  "(getMostUrgentNeed needs = None \<longleftrightarrow> (\<forall>x\<in>set needs. need_priority (snd x) \<le> 0.3)) \<and>
   (\<forall>k. getMostUrgentNeed needs = Some k \<longrightarrow>
      (\<exists>ys n zs. needs = ys @ (k, n) # zs \<and>
         (\<forall>y\<in>set ys. need_priority (snd y) < need_priority n) \<and>
         (\<forall>z\<in>set zs. need_priority (snd z) \<le> need_priority n)))"
proof -
  from urgent_loop_cases [of needs 0 None] show ?thesis
  proof
    assume a: "urgent_loop needs 0 None = (0, None) \<and> (\<forall>x\<in>set needs. need_priority (snd x) \<le> 0)"
    then have "getMostUrgentNeed needs = None" by (simp add: getMostUrgentNeed_def)
    moreover have "\<forall>x\<in>set needs. need_priority (snd x) \<le> 0.3"
    proof
      fix x assume "x \<in> set needs"
      with a have "need_priority (snd x) \<le> 0" by simp
      then show "need_priority (snd x) \<le> 0.3" by simp
    qed
    ultimately show ?thesis by simp
  next
    assume "\<exists>ys k n zs. needs = ys @ (k, n) # zs \<and> urgent_loop needs 0 None = (need_priority n, Some k) \<and>
      0 < need_priority n \<and>
      (\<forall>y\<in>set ys. need_priority (snd y) < need_priority n) \<and>
      (\<forall>z\<in>set zs. need_priority (snd z) \<le> need_priority n)"
    then obtain ys k n zs where b: "needs = ys @ (k, n) # zs"
      "urgent_loop needs 0 None = (need_priority n, Some k)"
      "\<forall>y\<in>set ys. need_priority (snd y) < need_priority n"
      "\<forall>z\<in>set zs. need_priority (snd z) \<le> need_priority n" by blast
    have mem: "(k, n) \<in> set needs" by (simp add: b(1))
    have all: "\<forall>x\<in>set needs. need_priority (snd x) \<le> need_priority n"
    proof
      fix x assume "x \<in> set needs"
      then have "x \<in> set ys \<or> x = (k, n) \<or> x \<in> set zs" by (auto simp add: b(1))
      then show "need_priority (snd x) \<le> need_priority n"
        using b(3,4) by (elim disjE) (simp_all add: less_imp_le)
    qed
    show ?thesis
    proof (cases "need_priority n > 0.3")
      case True
      then have r: "getMostUrgentNeed needs = Some k" using b(2) by (simp add: getMostUrgentNeed_def)
      have "\<not> need_priority (snd (k, n)) \<le> 0.3" using True by simp
      with mem have nall: "\<not> (\<forall>x\<in>set needs. need_priority (snd x) \<le> 0.3)" by blast
      have ex: "\<exists>ys n zs. needs = ys @ (k, n) # zs \<and>
         (\<forall>y\<in>set ys. need_priority (snd y) < need_priority n) \<and>
         (\<forall>z\<in>set zs. need_priority (snd z) \<le> need_priority n)"
        using b(1,3,4) by blast
      show ?thesis using r nall ex by simp
    next
      case False
      then have r: "getMostUrgentNeed needs = None" using b(2) by (simp add: getMostUrgentNeed_def)
      have "\<forall>x\<in>set needs. need_priority (snd x) \<le> 0.3"
      proof
        fix x assume "x \<in> set needs"
        with all have "need_priority (snd x) \<le> need_priority n" by simp
        with False show "need_priority (snd x) \<le> 0.3" by simp
      qed
      with r show ?thesis by simp
    qed
  qed
qed

theorem getMostUrgentNeed_spec_witness:
  "getMostUrgentNeed
     [(''hunger'', \<lparr>need_value = 50, need_max = 100, need_priority = 0.5\<rparr>),
      (''thirst'', \<lparr>need_value = 50, need_max = 100, need_priority = 0.5\<rparr>),
      (''sleep'', \<lparr>need_value = 80, need_max = 100, need_priority = 0.2\<rparr>)] = Some ''hunger'' \<and>
   (\<exists>ys n zs.
      [(''hunger'', \<lparr>need_value = 50, need_max = 100, need_priority = 0.5\<rparr>),
       (''thirst'', \<lparr>need_value = 50, need_max = 100, need_priority = 0.5\<rparr>),
       (''sleep'', \<lparr>need_value = 80, need_max = 100, need_priority = 0.2\<rparr>)] = ys @ (''hunger'', n) # zs \<and>
      (\<forall>y\<in>set ys. need_priority (snd y) < need_priority n) \<and>
      (\<forall>z\<in>set zs. need_priority (snd z) \<le> need_priority n))"
  (is "getMostUrgentNeed ?ex = _ \<and> ?e")
proof -
  have r: "getMostUrgentNeed ?ex = Some ''hunger''"
    by (simp add: getMostUrgentNeed_def)
  from getMostUrgentNeed_spec [of ?ex] have
    "\<forall>k. getMostUrgentNeed ?ex = Some k \<longrightarrow>
      (\<exists>ys n zs. ?ex = ys @ (k, n) # zs \<and>
         (\<forall>y\<in>set ys. need_priority (snd y) < need_priority n) \<and>
         (\<forall>z\<in>set zs. need_priority (snd z) \<le> need_priority n))" by (rule conjunct2)
  with r have ?e by blast
  with r show ?thesis by (rule conjI)
qed

subsection \<open>Decay\<close>






text \<open>
  The needs set of that run is the one the program itself leaves after an agent with
  sleep at 5 has drunk a coffee for thirst.
\<close>

lemma completeItemUse_coffee_needs:
  "npc_needs (completeItemUse (\<lambda>a. FunctionalItem_new ''item_1'' 0 0 ''Coffee'' coffee)
     ((NPC_new ''npc_1'' 0 0 ''Ann'')
      \<lparr>npc_needs := [(''hunger'', \<lparr>need_value = 60, need_max = 100, need_priority = 0.4\<rparr>),
                     (''thirst'', \<lparr>need_value = 20, need_max = 100, need_priority = 0.8\<rparr>),
                     (''sleep'', \<lparr>need_value = 5, need_max = 100, need_priority = 0.95\<rparr>),
                     (''happiness'', \<lparr>need_value = 70, need_max = 100, need_priority = 0.3\<rparr>),
                     (''social'', \<lparr>need_value = 90, need_max = 100, need_priority = 0.1\<rparr>)],
        currentGoal := Some \<lparr>goal_type = ''satisfy_need'', goal_needType = ''thirst'', goal_target = 0\<rparr>,
        targetItem := Some 0, usingItem := True\<rparr>))
   = [(''hunger'', \<lparr>need_value = 60, need_max = 100, need_priority = 0.4\<rparr>),
      (''thirst'', \<lparr>need_value = 50, need_max = 100, need_priority = 0.8\<rparr>),
      (''sleep'', \<lparr>need_value = - 5, need_max = 100, need_priority = 0.95\<rparr>),
      (''happiness'', \<lparr>need_value = 85, need_max = 100, need_priority = 0.3\<rparr>),
      (''social'', \<lparr>need_value = 90, need_max = 100, need_priority = 0.1\<rparr>)]"
  by (simp add: completeItemUse_def satisfy_others_def satisfyNeed_def getSatisfactionAmount_def
      FunctionalItem_new_def coffee_def NPC_new_def)




subsection \<open>Decay modifiers\<close>

text \<open>
  Claim C8: the modifier is 0.3 for sleep at night and 1.5 otherwise, 0.7 for happiness and
  for social at night and 1.0 otherwise, and 1.0 for hunger and thirst at every time; it is
  night exactly when the clock is at or past \<open>night\<close> or before \<open>dawn\<close>.
\<close>

theorem getNeedDecayModifier_table:
  "getNeedDecayModifier ts ''sleep'' = (if isNighttime ts then 0.3 else 1.5) \<and>
   getNeedDecayModifier ts ''happiness'' = (if isNighttime ts then 0.7 else 1.0) \<and>
   getNeedDecayModifier ts ''social'' = (if isNighttime ts then 0.7 else 1.0) \<and>
   getNeedDecayModifier ts ''hunger'' = 1.0 \<and>
   getNeedDecayModifier ts ''thirst'' = 1.0 \<and>
   (isNighttime ts \<longleftrightarrow> currentTime ts \<ge> night ts \<or> currentTime ts < dawn ts)"
  by (auto simp add: getNeedDecayModifier_def isNighttime_def getTimeOfDay_def Let_def)


section \<open>Properties of functional items\<close>

text \<open>
  Claim C2: \<open>startUse\<close> on an item in use returns \<open>false\<close> and the item as it was, so the
  occupant stays the first one; on an available item it returns \<open>true\<close> and the item in
  use by the caller with a use time of 0; after \<open>stopUse\<close>, and after an \<open>updateUse\<close> that
  reports completion (which it does once the use time reaches \<open>maxUseTime\<close>), the item is
  available and \<open>startUse\<close> by any occupant succeeds.
\<close>

theorem reserve_exclusive:
  "(inUse item \<longrightarrow> startUse item occupant = (False, item)) \<and>
   (\<not> inUse item \<longrightarrow>
      startUse item occupant =
        (True, item\<lparr>inUse := True, usedBy := Some occupant, useTime := 0\<rparr>) \<and>
      startUse (snd (startUse item occupant)) other = (False, snd (startUse item occupant)) \<and>
      usedBy (snd (startUse (snd (startUse item occupant)) other)) = Some occupant) \<and>
   isAvailable (stopUse item) \<and> fst (startUse (stopUse item) other) \<and>
   (inUse item \<and> useTime item + deltaTime \<ge> maxUseTime item \<longrightarrow>
      fst (updateUse item deltaTime) \<and> isAvailable (snd (updateUse item deltaTime))) \<and>
   (fst (updateUse item deltaTime) \<longrightarrow>
      isAvailable (snd (updateUse item deltaTime)) \<and>
      fst (startUse (snd (updateUse item deltaTime)) other)) \<and>
   (isAvailable item \<longleftrightarrow> \<not> inUse item)"
  by (simp add: startUse_def stopUse_def updateUse_def completeUse_def isAvailable_def Let_def)

theorem reserve_exclusive_witness:
  "startUse (FunctionalItem_new ''item_1'' 2 3 ''Coffee'' coffee) ''npc_a'' =
     (True, (FunctionalItem_new ''item_1'' 2 3 ''Coffee'' coffee)
              \<lparr>inUse := True, usedBy := Some ''npc_a'', useTime := 0\<rparr>) \<and>
   usedBy (snd (startUse (snd (startUse (FunctionalItem_new ''item_1'' 2 3 ''Coffee'' coffee) ''npc_a'')) ''npc_b''))
     = Some ''npc_a'' \<and>
   fst (updateUse (snd (startUse (FunctionalItem_new ''item_1'' 2 3 ''Coffee'' coffee) ''npc_a'')) 2) \<and>
   fst (startUse (snd (updateUse (snd (startUse (FunctionalItem_new ''item_1'' 2 3 ''Coffee'' coffee) ''npc_a'')) 2)) ''npc_b'')"
proof -
  let ?item = "FunctionalItem_new ''item_1'' 2 3 ''Coffee'' coffee"
  have a: "\<not> inUse ?item" by (simp add: FunctionalItem_new_def)
  have b: "fst (updateUse (snd (startUse ?item ''npc_a'')) 2)"
    by (simp add: FunctionalItem_new_def startUse_def updateUse_def coffee_def Let_def completeUse_def)
  from reserve_exclusive [of ?item "''npc_a''" "''npc_b''" 2] a
  have c: "startUse ?item ''npc_a'' = (True, ?item\<lparr>inUse := True, usedBy := Some ''npc_a'', useTime := 0\<rparr>)"
    and d: "usedBy (snd (startUse (snd (startUse ?item ''npc_a'')) ''npc_b'')) = Some ''npc_a''"
    by blast+
  from reserve_exclusive [of "snd (startUse ?item ''npc_a'')" "''npc_a''" "''npc_b''" 2] b
  have e: "fst (startUse (snd (updateUse (snd (startUse ?item ''npc_a'')) 2)) ''npc_b'')"
    by blast
  from c d b e show ?thesis by blast
qed

section \<open>Properties of the NPC\<close>

text \<open>
  Claim C7: deserializing the saved form of an agent into a fresh agent (any one the
  constructor builds, and the one the loader of the map builds) gives the needs of the
  saved agent, and leaves the goal, the target item, the use flag and the movement flag
  as the constructor set them: none, none, false and false.
\<close>

theorem serialize_roundtrip:
  "npc_needs (NPC_deserialize (NPC_new new_id x y nm) (NPC_serialize agent)) = npc_needs agent \<and>
   currentGoal (NPC_deserialize (NPC_new new_id x y nm) (NPC_serialize agent)) = None \<and>
   targetItem (NPC_deserialize (NPC_new new_id x y nm) (NPC_serialize agent)) = None \<and>
   \<not> usingItem (NPC_deserialize (NPC_new new_id x y nm) (NPC_serialize agent)) \<and>
   \<not> isMoving (NPC_deserialize (NPC_new new_id x y nm) (NPC_serialize agent)) \<and>
   npc_needs (load_NPC new_id (NPC_serialize agent)) = npc_needs agent \<and>
   currentGoal (load_NPC new_id (NPC_serialize agent)) = None \<and>
   targetItem (load_NPC new_id (NPC_serialize agent)) = None \<and>
   \<not> usingItem (load_NPC new_id (NPC_serialize agent)) \<and>
   \<not> isMoving (load_NPC new_id (NPC_serialize agent))"
  by (simp add: load_NPC_def NPC_deserialize_def NPC_serialize_def Entity_deserialize_def
      setPosition_def NPC_new_def)

subsection \<open>Relationships\<close>

lemma updateRelationship_step:
  assumes "\<forall>oid r. relationships this oid = Some r \<longrightarrow> - 100 \<le> rel_value r \<and> rel_value r \<le> 100"
  shows "\<forall>oid r. relationships (updateRelationship this other change now) oid = Some r \<longrightarrow>
           - 100 \<le> rel_value r \<and> rel_value r \<le> 100"
  using assms by (auto simp add: updateRelationship_def Let_def split: option.splits if_splits)

lemma updateRelationship_seq:
  assumes "\<forall>oid r. relationships this oid = Some r \<longrightarrow> - 100 \<le> rel_value r \<and> rel_value r \<le> 100"
  shows "\<forall>oid r. relationships
            (foldl (\<lambda>n (other, change, now). updateRelationship n other change now) this updates) oid
          = Some r \<longrightarrow> - 100 \<le> rel_value r \<and> rel_value r \<le> 100"
  using assms
proof (induction updates arbitrary: this)
  case Nil
  then show ?case by simp
next
  case (Cons u us)
  obtain other change now where u: "u = (other, change, now)" by (cases u)
  from updateRelationship_step [OF Cons.prems, of other change now]
  have "\<forall>oid r. relationships (updateRelationship this other change now) oid = Some r \<longrightarrow>
           - 100 \<le> rel_value r \<and> rel_value r \<le> 100" .
  from Cons.IH [OF this] show ?case by (simp add: u)
qed

text \<open>
  Claim C9: after any sequence of \<open>updateRelationship\<close> calls on a new NPC, with any
  partners and any changes, every stored value lies in \<open>[-100, 100]\<close>; a new NPC holds no
  record, the first update for a partner creates one from the value 0, and one update
  keeps the bounds of every record.
\<close>

theorem relationship_bounds:
  "(\<forall>oid r. relationships
       (foldl (\<lambda>n (other, change, now). updateRelationship n other change now)
          (NPC_new new_id x y nm) updates) oid = Some r \<longrightarrow>
       - 100 \<le> rel_value r \<and> rel_value r \<le> 100) \<and>
   relationships (NPC_new new_id x y nm) other = None \<and>
   (relationships this other = None \<longrightarrow>
      relationships (updateRelationship this other change now) other =
        Some \<lparr>rel_value = max (- 100) (min 100 (0 + change)), interactions = 1,
              lastInteraction = now\<rparr>) \<and>
   ((\<forall>oid r. relationships this oid = Some r \<longrightarrow> - 100 \<le> rel_value r \<and> rel_value r \<le> 100) \<longrightarrow>
    (\<forall>oid r. relationships (updateRelationship this other change now) oid = Some r \<longrightarrow>
       - 100 \<le> rel_value r \<and> rel_value r \<le> 100))"
proof -
  have fresh: "\<forall>oid r. relationships (NPC_new new_id x y nm) oid = Some r \<longrightarrow>
      - 100 \<le> rel_value r \<and> rel_value r \<le> 100"
    by (simp add: NPC_new_def)
  have a: "\<forall>oid r. relationships
       (foldl (\<lambda>n (other, change, now). updateRelationship n other change now)
          (NPC_new new_id x y nm) updates) oid = Some r \<longrightarrow>
       - 100 \<le> rel_value r \<and> rel_value r \<le> 100"
    by (rule updateRelationship_seq [OF fresh])
  have b: "relationships (NPC_new new_id x y nm) other = None" by (simp add: NPC_new_def)
  have c: "relationships this other = None \<longrightarrow>
      relationships (updateRelationship this other change now) other =
        Some \<lparr>rel_value = max (- 100) (min 100 (0 + change)), interactions = 1,
              lastInteraction = now\<rparr>"
    by (simp add: updateRelationship_def)
  have d: "(\<forall>oid r. relationships this oid = Some r \<longrightarrow> - 100 \<le> rel_value r \<and> rel_value r \<le> 100) \<longrightarrow>
    (\<forall>oid r. relationships (updateRelationship this other change now) oid = Some r \<longrightarrow>
       - 100 \<le> rel_value r \<and> rel_value r \<le> 100)"
    using updateRelationship_step [of this other change now] by blast
  from a b c d show ?thesis by blast
qed

theorem relationship_bounds_witness:
  "relationships
     (foldl (\<lambda>n (other, change, now). updateRelationship n other change now)
        (NPC_new ''npc_a'' 0 0 ''Ann'') [(''npc_b'', 150, 1), (''npc_b'', - 500, 2)]) ''npc_b''
     = Some \<lparr>rel_value = - 100, interactions = 2, lastInteraction = 2\<rparr> \<and>
   - 100 \<le> rel_value \<lparr>rel_value = - 100, interactions = 2, lastInteraction = 2\<rparr> \<and>
   rel_value \<lparr>rel_value = - 100, interactions = 2, lastInteraction = 2\<rparr> \<le> 100"
proof -
  have e: "relationships
     (foldl (\<lambda>n (other, change, now). updateRelationship n other change now)
        (NPC_new ''npc_a'' 0 0 ''Ann'') [(''npc_b'', 150, 1), (''npc_b'', - 500, 2)]) ''npc_b''
     = Some \<lparr>rel_value = - 100, interactions = 2, lastInteraction = 2\<rparr>"
    by (simp add: updateRelationship_def NPC_new_def)
  from relationship_bounds [of "''npc_a''" 0 0 "''Ann''" "[(''npc_b'', 150, 1), (''npc_b'', - 500, 2)]"] e
  show ?thesis by blast
qed

subsection \<open>Completing the use of an item\<close>

lemma map_of_satisfyNeed:
  "map_of (satisfyNeed ns k a) k' =
     (if k' = k
      then map_option (\<lambda>n. n\<lparr>need_value := min (need_max n) (need_value n + a)\<rparr>) (map_of ns k)
      else map_of ns k')"
  by (cases "map_of ns k") (simp_all add: satisfyNeed_def update_conv')

lemma satisfy_others_skip:
  assumes "k = g \<or> k \<notin> fst ` set table"
  shows "map_of (satisfy_others table g ns) k = map_of ns k"
  using assms
proof (induction table arbitrary: ns)
  case Nil
  then show ?case by (simp add: satisfy_others_def)
next
  case (Cons e table)
  obtain k' a where e: "e = (k', a)" by (cases e)
  have step: "satisfy_others (e # table) g ns =
      satisfy_others table g (if k' \<noteq> g then satisfyNeed ns k' a else ns)"
    by (simp add: satisfy_others_def e)
  have rest: "k = g \<or> k \<notin> fst ` set table" using Cons.prems by auto
  have "map_of (if k' \<noteq> g then satisfyNeed ns k' a else ns) k = map_of ns k"
    using Cons.prems by (auto simp add: e map_of_satisfyNeed)
  with Cons.IH [OF rest] step show ?case by simp
qed

lemma satisfy_others_listed:
  assumes "distinct (map fst table)" and "(k, a) \<in> set table" and "k \<noteq> g"
  shows "map_of (satisfy_others table g ns) k =
     map_option (\<lambda>n. n\<lparr>need_value := min (need_max n) (need_value n + a)\<rparr>) (map_of ns k)"
  using assms
proof (induction table arbitrary: ns)
  case Nil
  then show ?case by simp
next
  case (Cons e table)
  obtain k' a' where e: "e = (k', a')" by (cases e)
  have step: "satisfy_others (e # table) g ns =
      satisfy_others table g (if k' \<noteq> g then satisfyNeed ns k' a' else ns)"
    by (simp add: satisfy_others_def e)
  show ?case
  proof (cases "e = (k, a)")
    case True
    then have ka: "k' = k" "a' = a" using e by simp_all
    have "k \<notin> fst ` set table" using Cons.prems(1) ka e by simp
    then have "map_of (satisfy_others table g (satisfyNeed ns k a)) k = map_of (satisfyNeed ns k a) k"
      by (simp add: satisfy_others_skip)
    then show ?thesis using step ka Cons.prems(3) by (simp add: map_of_satisfyNeed)
  next
    case False
    then have mem: "(k, a) \<in> set table" using Cons.prems(2) by simp
    have d: "distinct (map fst table)" using Cons.prems(1) by simp
    have "k' \<noteq> k" using Cons.prems(1) mem e by force
    then have "map_of (if k' \<noteq> g then satisfyNeed ns k' a' else ns) k = map_of ns k"
      by (simp add: map_of_satisfyNeed)
    with Cons.IH [OF d mem Cons.prems(3)] step show ?thesis by simp
  qed
qed

text \<open>
  Claim C5 says that an entry of the table that is not positive changes nothing. The loop
  of \<open>completeItemUse\<close> passes every entry other than the goal's to \<open>satisfyNeed\<close>: an agent
  that drinks coffee for thirst with sleep at 50 ends with sleep at 40.
\<close>

theorem completeItemUse_negative_entry:
  "map_of (satisfies coffee) ''sleep'' = Some (- 10) \<and>
   map_of (npc_needs ((NPC_new ''npc_1'' 0 0 ''Ann'')
      \<lparr>npc_needs := [(''hunger'', \<lparr>need_value = 60, need_max = 100, need_priority = 0.4\<rparr>),
                     (''thirst'', \<lparr>need_value = 20, need_max = 100, need_priority = 0.8\<rparr>),
                     (''sleep'', \<lparr>need_value = 50, need_max = 100, need_priority = 0.5\<rparr>),
                     (''happiness'', \<lparr>need_value = 70, need_max = 100, need_priority = 0.3\<rparr>),
                     (''social'', \<lparr>need_value = 90, need_max = 100, need_priority = 0.1\<rparr>)],
        currentGoal := Some \<lparr>goal_type = ''satisfy_need'', goal_needType = ''thirst'', goal_target = 0\<rparr>,
        targetItem := Some 0, usingItem := True\<rparr>)) ''sleep''
     = Some \<lparr>need_value = 50, need_max = 100, need_priority = 0.5\<rparr> \<and>
   map_of (npc_needs (completeItemUse (\<lambda>a. FunctionalItem_new ''item_1'' 0 0 ''Coffee'' coffee)
     ((NPC_new ''npc_1'' 0 0 ''Ann'')
      \<lparr>npc_needs := [(''hunger'', \<lparr>need_value = 60, need_max = 100, need_priority = 0.4\<rparr>),
                     (''thirst'', \<lparr>need_value = 20, need_max = 100, need_priority = 0.8\<rparr>),
                     (''sleep'', \<lparr>need_value = 50, need_max = 100, need_priority = 0.5\<rparr>),
                     (''happiness'', \<lparr>need_value = 70, need_max = 100, need_priority = 0.3\<rparr>),
                     (''social'', \<lparr>need_value = 90, need_max = 100, need_priority = 0.1\<rparr>)],
        currentGoal := Some \<lparr>goal_type = ''satisfy_need'', goal_needType = ''thirst'', goal_target = 0\<rparr>,
        targetItem := Some 0, usingItem := True\<rparr>))) ''sleep''
     = Some \<lparr>need_value = 40, need_max = 100, need_priority = 0.5\<rparr>"
  by (simp add: completeItemUse_def satisfy_others_def satisfyNeed_def getSatisfactionAmount_def
      FunctionalItem_new_def coffee_def NPC_new_def)

text \<open>
  Claim C5 as the code has it: the need of the goal moves by the table amount of its kind
  (0 when the table has none), every other kind that the table lists moves by its amount,
  whatever the sign, each up to the maximum of the need, and a kind that the table does
  not list keeps its need. The statement covers the results that do not fall below 0.
\<close>

theorem completeItemUse_table:
  assumes "targetItem this = Some a" and "currentGoal this = Some g"
    and "distinct (map fst (satisfies (itemDef (items a))))"
    and "map_of (npc_needs this) k = Some n"
  shows "(k = goal_needType g \<and> 0 \<le> need_value n + getSatisfactionAmount (items a) k \<longrightarrow>
            map_of (npc_needs (completeItemUse items this)) k =
              Some (n\<lparr>need_value :=
                     min (need_max n) (need_value n + getSatisfactionAmount (items a) k)\<rparr>)) \<and>
         (\<forall>amount. k \<noteq> goal_needType g \<and> (k, amount) \<in> set (satisfies (itemDef (items a))) \<and>
                   0 \<le> need_value n + amount \<longrightarrow>
            map_of (npc_needs (completeItemUse items this)) k =
              Some (n\<lparr>need_value := min (need_max n) (need_value n + amount)\<rparr>)) \<and>
         (k \<noteq> goal_needType g \<and> k \<notin> fst ` set (satisfies (itemDef (items a))) \<longrightarrow>
            map_of (npc_needs (completeItemUse items this)) k = Some n)"
proof -
  let ?table = "satisfies (itemDef (items a))"
  let ?g = "goal_needType g"
  let ?ns = "satisfyNeed (npc_needs this) ?g (getSatisfactionAmount (items a) ?g)"
  have res: "npc_needs (completeItemUse items this) = satisfy_others ?table ?g ?ns"
    using assms(1,2) by (simp add: completeItemUse_def Let_def)
  have p1: "k = ?g \<longrightarrow> map_of (npc_needs (completeItemUse items this)) k =
      Some (n\<lparr>need_value := min (need_max n) (need_value n + getSatisfactionAmount (items a) k)\<rparr>)"
    using assms(4) by (auto simp add: res satisfy_others_skip map_of_satisfyNeed)
  have p2: "\<forall>amount. k \<noteq> ?g \<and> (k, amount) \<in> set ?table \<longrightarrow>
      map_of (npc_needs (completeItemUse items this)) k =
        Some (n\<lparr>need_value := min (need_max n) (need_value n + amount)\<rparr>)"
  proof (intro allI impI)
    fix amount
    assume h: "k \<noteq> ?g \<and> (k, amount) \<in> set ?table"
    then have "map_of (satisfy_others ?table ?g ?ns) k =
        map_option (\<lambda>n. n\<lparr>need_value := min (need_max n) (need_value n + amount)\<rparr>) (map_of ?ns k)"
      using assms(3) by (simp add: satisfy_others_listed)
    moreover have "map_of ?ns k = Some n" using h assms(4) by (simp add: map_of_satisfyNeed)
    ultimately show "map_of (npc_needs (completeItemUse items this)) k =
        Some (n\<lparr>need_value := min (need_max n) (need_value n + amount)\<rparr>)"
      by (simp add: res)
  qed
  have p3: "k \<noteq> ?g \<and> k \<notin> fst ` set ?table \<longrightarrow>
      map_of (npc_needs (completeItemUse items this)) k = Some n"
    using assms(4) by (simp add: res satisfy_others_skip map_of_satisfyNeed)
  from p1 p2 p3 show ?thesis by blast
qed

theorem completeItemUse_table_witness:
  "map_of (npc_needs (completeItemUse (\<lambda>a. FunctionalItem_new ''item_1'' 4 2 ''Coffee'' coffee)
     ((NPC_new ''npc_1'' 4 2 ''Ann'')
      \<lparr>currentGoal := Some \<lparr>goal_type = ''satisfy_need'', goal_needType = ''thirst'', goal_target = 7\<rparr>,
        targetItem := Some 7, usingItem := True\<rparr>))) ''sleep''
     = Some \<lparr>need_value = 90, need_max = 100, need_priority = 0\<rparr>"
proof -
  let ?items = "\<lambda>a::nat. FunctionalItem_new ''item_1'' 4 2 ''Coffee'' coffee"
  let ?g = "\<lparr>goal_type = ''satisfy_need'', goal_needType = ''thirst'', goal_target = 7\<rparr>"
  let ?agent = "(NPC_new ''npc_1'' 4 2 ''Ann'')\<lparr>currentGoal := Some ?g, targetItem := Some 7, usingItem := True\<rparr>"
  let ?n = "\<lparr>need_value = 100, need_max = 100, need_priority = 0\<rparr>"
  have a: "targetItem ?agent = Some 7" by simp
  have b: "currentGoal ?agent = Some ?g" by simp
  have c: "distinct (map fst (satisfies (itemDef (?items 7))))"
    by (simp add: FunctionalItem_new_def coffee_def)
  have d: "map_of (npc_needs ?agent) ''sleep'' = Some ?n"
    by (simp add: NPC_new_def initializeNeeds_def needTypes_def)
  have e: "''sleep'' \<noteq> goal_needType ?g \<and> (''sleep'', - 10) \<in> set (satisfies (itemDef (?items 7))) \<and>
      0 \<le> need_value ?n + (- 10)"
    by (simp add: FunctionalItem_new_def coffee_def)
  from completeItemUse_table [OF a b c d] have
    "\<forall>amount. ''sleep'' \<noteq> goal_needType ?g \<and> (''sleep'', amount) \<in> set (satisfies (itemDef (?items 7))) \<and>
                   0 \<le> need_value ?n + amount \<longrightarrow>
            map_of (npc_needs (completeItemUse ?items ?agent)) ''sleep'' =
              Some (?n\<lparr>need_value := min (need_max ?n) (need_value ?n + amount)\<rparr>)"
    by blast
  with e have "map_of (npc_needs (completeItemUse ?items ?agent)) ''sleep'' =
              Some (?n\<lparr>need_value := min (need_max ?n) (need_value ?n + (- 10))\<rparr>)"
    by blast
  then show ?thesis by simp
qed

section \<open>Properties of the entity manager\<close>

lemma sqrt_quarter: "sqrt (1 / 4) = 1 / 2"
  by (simp add: real_sqrt_divide)

lemma truncate_fields:
  "tileX (entity.truncate e) = tileX e" "tileY (entity.truncate e) = tileY e"
  "pixelX (entity.truncate e) = pixelX e" "pixelY (entity.truncate e) = pixelY e"
  "entity_id (entity.truncate e) = entity_id e" "entity_type (entity.truncate e) = entity_type e"
  "active (entity.truncate e) = active e" "markedForRemoval (entity.truncate e) = markedForRemoval e"
  by (simp_all add: entity.defs)

lemma fresh_fields:
  "entity_id (NPC_new i x y n) = i" "entity_type (NPC_new i x y n) = ''npc''"
  "tileX (NPC_new i x y n) = x" "tileY (NPC_new i x y n) = y"
  by (simp_all add: NPC_new_def)

lemma arriving_npc_fields:
  "active arriving_npc" "\<not> markedForRemoval arriving_npc"
  "isMoving arriving_npc" "\<not> usingItem arriving_npc" "targetItem arriving_npc = None"
  "pixelX arriving_npc = 63 / 2" "pixelY arriving_npc = 0"
  "targetPixelX arriving_npc = 32" "targetPixelY arriving_npc = 0"
  "moveSpeed arriving_npc = 4 / 5"
  "lastNeedUpdate arriving_npc = 1600" "needUpdateInterval arriving_npc = 100"
  "lastAITime arriving_npc = 1000" "aiInterval arriving_npc = 1000"
  "tileX arriving_npc = 0" "tileY arriving_npc = 0" "entity_id arriving_npc = ''npc_1''"
  by (simp_all add: arriving_npc_def NPC_new_def moveTo_def)

lemma arriving_world_eq:
  "entities arriving_world = [(''npc_1'', NPCRef 0)]"
  "entitiesByPosition arriving_world = [((0, 0), [NPCRef 0])]"
  "heap_npcs arriving_world 0 = arriving_npc"
  by (simp_all add: arriving_world_def Let_def EntityManager_add_def EntityManager_new_def
      indexEntityPosition_def deref_def truncate_fields fresh_fields Set_add_def)

lemma arriving_needs:
  "update_needs (arriving_env decide) 16 arriving_npc = arriving_npc"
  by (simp add: update_needs_def arriving_env_def arriving_npc_fields)

lemma arriving_itemUse:
  "update_itemUse (arriving_env decide) arriving_world 0 = arriving_world"
  by (simp add: update_itemUse_def arriving_world_eq arriving_npc_fields)

lemma arriving_movement:
  "update_movement (arriving_env decide) arriving_world 0 =
     arriving_world\<lparr>heap_npcs := (heap_npcs arriving_world)(0 := arrived_npc)\<rparr>"
  by (simp add: update_movement_def arriving_world_eq arriving_npc_fields Let_def sqrt_quarter
      arrived_npc_def)

lemma arrived_npc_fields:
  "\<not> isMoving arrived_npc" "\<not> usingItem arrived_npc"
  "lastAITime arrived_npc = 1000" "aiInterval arrived_npc = 1000"
  "tileX arrived_npc = 1" "tileY arrived_npc = 0" "pixelX arrived_npc = 32" "pixelY arrived_npc = 0"
  "active arrived_npc" "\<not> markedForRemoval arrived_npc"
  by (simp_all add: arrived_npc_def arriving_npc_fields)

lemma arrived_animation:
  "update_animation (arriving_env decide) arrived_npc = arrived_npc"
  by (simp add: update_animation_def arrived_npc_fields) (simp add: arrived_npc_def)

lemma arriving_update:
  "NPC_update (arriving_env decide) 16 arriving_world 0 =
     arriving_world\<lparr>heap_npcs := (heap_npcs arriving_world)(0 := arrived_npc)\<rparr>"
proof -
  have a: "arriving_world\<lparr>heap_npcs := (heap_npcs arriving_world)
             (0 := update_needs (arriving_env decide) 16 (heap_npcs arriving_world 0))\<rparr> = arriving_world"
  proof -
    have "(heap_npcs arriving_world)(0 := arriving_npc) = heap_npcs arriving_world"
      using fun_upd_triv [of "heap_npcs arriving_world" 0] by (simp add: arriving_world_eq)
    then show ?thesis by (simp add: arriving_world_eq arriving_needs)
  qed
  let ?w3 = "arriving_world\<lparr>heap_npcs := (heap_npcs arriving_world)(0 := arrived_npc)\<rparr>"
  have b: "?w3\<lparr>heap_npcs := (heap_npcs ?w3)(0 := update_animation (arriving_env decide) (heap_npcs ?w3 0))\<rparr> = ?w3"
    by (simp add: arrived_animation)
  have c: "update_ai (arriving_env decide) ?w3 0 = ?w3"
    by (simp add: update_ai_def arrived_npc_fields arriving_env_def)
  have "active (heap_npcs arriving_world 0)" by (simp add: arriving_world_eq arriving_npc_fields)
  then show ?thesis
    unfolding NPC_update_def Let_def a arriving_itemUse arriving_movement b c by simp
qed


lemma arrived_position:
  "updateEntityPosition
     (arriving_world\<lparr>heap_npcs := (heap_npcs arriving_world)(0 := arrived_npc)\<rparr>) (NPCRef 0) =
   arriving_world\<lparr>heap_npcs := (heap_npcs arriving_world)(0 := arrived_npc)\<rparr>"
  by (simp add: updateEntityPosition_def deref_def truncate_fields arrived_npc_fields)

lemma arriving_tick:
  "EntityManager_update (arriving_env decide) 16 arriving_world =
   arriving_world\<lparr>heap_npcs := (heap_npcs arriving_world)(0 := arrived_npc)\<rparr>"
  by (simp add: EntityManager_update_def arriving_world_eq deref_def truncate_fields
      arriving_npc_fields entity_update_def arriving_update arrived_position)

text \<open>
  Claim C6 (after a tick every entity of the index is in the bucket of its current tile).
  \<open>updateEntityPosition\<close> derives its old key from the pixel position, which the arrival has
  already snapped to the target, so both keys are the new tile and nothing is re-indexed:
  after the tick the NPC stands on tile \<open>(1, 0)\<close>, the bucket of \<open>(1, 0)\<close> is empty and the
  bucket of \<open>(0, 0)\<close> still holds it.
\<close>

theorem EntityManager_update_stale_bucket:
  "tileX (heap_npcs arriving_world 0) = 0 \<and> tileY (heap_npcs arriving_world 0) = 0 \<and>
   getAtPosition arriving_world 0 0 = [NPCRef 0] \<and>
   map_of (entities (EntityManager_update (arriving_env decide) 16 arriving_world)) ''npc_1''
     = Some (NPCRef 0) \<and>
   tileX (heap_npcs (EntityManager_update (arriving_env decide) 16 arriving_world) 0) = 1 \<and>
   tileY (heap_npcs (EntityManager_update (arriving_env decide) 16 arriving_world) 0) = 0 \<and>
   getAtPosition (EntityManager_update (arriving_env decide) 16 arriving_world) 1 0 = [] \<and>
   getAtPosition (EntityManager_update (arriving_env decide) 16 arriving_world) 0 0 = [NPCRef 0]"
  by (simp add: arriving_tick getAtPosition_def arriving_world_eq arriving_npc_fields
      arrived_npc_fields)

end
